theory Spec2Isabelle
  imports
    Complex_Main
    "HOL-Library.AList"
    "HOL-Library.Multiset"
    "HOL-Library.Char_ord"
    "HOL-Library.List_Lexorder"
    "HOL-Library.Product_Lexorder"
begin

section \<open>Python values\<close>

text \<open>
  A Python \<open>str\<close> is a \<^typ>\<open>string\<close>, compared as Python compares strings (by code
  point, a proper prefix being smaller). A \<open>float\<close> is a \<^typ>\<open>real\<close>: the confidence
  of a claim that passed validation is a finite number between 0 and 1, and the
  subtraction of two confidences is read as the exact difference. A \<open>datetime\<close> is a
  point on an integer time line. A \<open>dict\<close> is an association list in insertion order:
  \<^const>\<open>map_of\<close> looks a key up and \<^const>\<open>AList.update\<close> assigns to a key, in
  place when the key is there and at the end when it is new.
\<close>

type_synonym datetime = int

type_synonym ('k, 'v) dict = "('k \<times> 'v) list"

text \<open>The truth value Python gives to an \<open>Optional[str]\<close>: \<open>None\<close> and \<open>""\<close> are false.\<close>

fun truthy :: "string option \<Rightarrow> bool" where
  "truthy None = False"
| "truthy (Some s) = (s \<noteq> [])"

text \<open>\<open>xs or []\<close> for an optional list.\<close>

fun or_empty :: "'a list option \<Rightarrow> 'a list" where
  "or_empty None = []"
| "or_empty (Some xs) = xs"




datatype error =
    ValidationError
  | ReferentialIntegrityError string
  | AttributeError
  | KeyError string

section \<open>Record model\<close>

text \<open>The provenance fields that Evidence, Claim and Artifact all declare.\<close>

record provenance =
  metadata :: "(string, string) dict"
  tool_name :: "string option"
  tool_version :: "string option"
  model_name :: "string option"
  model_version :: "string option"
  timestamp :: datetime

record evidence = provenance +
  evidence_id :: "string option"
  content :: string
  source :: string

record claim = provenance +
  claim_id :: "string option"
  statement :: string
  confidence :: real
  supporting_evidence_ids :: "string list"
  counter_evidence_ids :: "string list"

datatype artifact_kind = TEvidence | TClaim | TDerived | TReport

record artifact = provenance +
  artifact_id :: "string option"
  artifact_type :: artifact_kind
  artifact_content :: string
  parent_artifact_id :: "string option"

subsection \<open>Claim construction\<close>

text \<open>
  \<open>Claim(...)\<close>: the field constraints \<open>ge=0.0, le=1.0\<close> on the confidence are checked
  first, then \<open>model_post_init\<close> counts the evidence references. Both failures reach the
  caller as a validation error.
\<close>

definition model_post_init :: "claim \<Rightarrow> error + claim" where
  "model_post_init c =
     (let total_evidence = length (supporting_evidence_ids c) + length (counter_evidence_ids c)
      in if total_evidence = 0 then Inl ValidationError else Inr c)"

definition new_claim :: "claim \<Rightarrow> error + claim" where
  "new_claim c =
     (if \<not> (0 \<le> confidence c \<and> confidence c \<le> 1) then Inl ValidationError
      else model_post_init c)"

definition evidence_refs :: "claim \<Rightarrow> string list" where
  "evidence_refs c = supporting_evidence_ids c @ counter_evidence_ids c"

section \<open>Stores\<close>

type_synonym evidence_store = "(string, evidence) dict"

type_synonym claim_store = "(string, claim) dict"

type_synonym artifact_store = "(string, artifact) dict"

subsection \<open>Evidence store\<close>

text \<open>
  The identifier \<open>uuid.uuid4()\<close> returns and the time \<open>datetime.utcnow()\<close> reads are
  arguments of the store operations.
\<close>

definition store_evidence ::
  "evidence_store \<Rightarrow> string \<Rightarrow> datetime \<Rightarrow> string \<Rightarrow> string \<Rightarrow> (string, string) dict option \<Rightarrow>
   string option \<Rightarrow> string option \<Rightarrow> string option \<Rightarrow> string option \<Rightarrow>
   evidence \<times> evidence_store" where
  "store_evidence es new_id now cnt src md tn tv mn mv =
     (let e = \<lparr> metadata = or_empty md, tool_name = tn, tool_version = tv,
                model_name = mn, model_version = mv, timestamp = now,
                evidence_id = Some new_id, content = cnt, source = src \<rparr>
      in (e, AList.update new_id e es))"

definition get_evidence :: "evidence_store \<Rightarrow> string \<Rightarrow> evidence option" where
  "get_evidence es eid = map_of es eid"



subsection \<open>Claim store\<close>

text \<open>
  A claim store is bound to an evidence store; the operations below take the bound
  store's contents at call time as their first argument. An operation that raises
  leaves the claim store as it was.
\<close>

definition store_claim ::
  "evidence_store \<Rightarrow> claim_store \<Rightarrow> string \<Rightarrow> datetime \<Rightarrow> string \<Rightarrow> real \<Rightarrow> string list \<Rightarrow>
   string list option \<Rightarrow> (string, string) dict option \<Rightarrow>
   string option \<Rightarrow> string option \<Rightarrow> string option \<Rightarrow> string option \<Rightarrow>
   (error + claim) \<times> claim_store" where
  "store_claim es cs new_id now stmt conf supp ctr md tn tv mn mv =
     (let all_evidence_ids = supp @ or_empty ctr
      in case find (\<lambda>eid. get_evidence es eid = None) all_evidence_ids of
           Some eid \<Rightarrow> (Inl (ReferentialIntegrityError eid), cs)
         | None \<Rightarrow>
             (case new_claim \<lparr> metadata = or_empty md, tool_name = tn, tool_version = tv,
                               model_name = mn, model_version = mv, timestamp = now,
                               claim_id = None, statement = stmt, confidence = conf,
                               supporting_evidence_ids = supp,
                               counter_evidence_ids = or_empty ctr \<rparr> of
                Inl e \<Rightarrow> (Inl e, cs)
              | Inr c \<Rightarrow>
                  (let c' = c\<lparr>claim_id := Some new_id\<rparr>
                   in (Inr c', AList.update new_id c' cs))))"

definition get_claim :: "claim_store \<Rightarrow> string \<Rightarrow> claim option" where
  "get_claim cs cid = map_of cs cid"

definition count_claims :: "claim_store \<Rightarrow> nat" where
  "count_claims cs = length cs"


subsection \<open>Artifact store\<close>

definition store_artifact ::
  "artifact_store \<Rightarrow> string \<Rightarrow> datetime \<Rightarrow> artifact_kind \<Rightarrow> string \<Rightarrow> string option \<Rightarrow>
   (string, string) dict option \<Rightarrow>
   string option \<Rightarrow> string option \<Rightarrow> string option \<Rightarrow> string option \<Rightarrow>
   artifact \<times> artifact_store" where
  "store_artifact st new_id now kind cnt parent md tn tv mn mv =
     (let a = \<lparr> metadata = or_empty md, tool_name = tn, tool_version = tv,
                model_name = mn, model_version = mv, timestamp = now,
                artifact_id = Some new_id, artifact_type = kind, artifact_content = cnt,
                parent_artifact_id = parent \<rparr>
      in (a, AList.update new_id a st))"

definition get_artifact :: "artifact_store \<Rightarrow> string \<Rightarrow> artifact option" where
  "get_artifact st aid = map_of st aid"



text \<open>
  The \<open>while current_id:\<close> loop of \<open>get_artifact_lineage\<close>. Nothing in the loop bounds
  the number of rounds, so the model is a partial function: \<open>None\<close> is a walk that never
  leaves the loop. \<open>lineage.insert(0, artifact)\<close> puts the artifact in front.
\<close>

partial_function (option) lineage_loop ::
  "artifact_store \<Rightarrow> string option \<Rightarrow> artifact list \<Rightarrow> artifact list option" where
  "lineage_loop st current_id lineage =
     (case current_id of
        None \<Rightarrow> Some lineage
      | Some i \<Rightarrow>
          if i = [] then Some lineage
          else (case get_artifact st i of
                  None \<Rightarrow> Some lineage
                | Some a \<Rightarrow> lineage_loop st (parent_artifact_id a) (a # lineage)))"

definition get_artifact_lineage :: "artifact_store \<Rightarrow> string \<Rightarrow> artifact list option" where
  "get_artifact_lineage st aid = lineage_loop st (Some aid) []"

text \<open>
  The parent links of a store that the walk can follow: from the artifact stored under
  \<open>k\<close> to a non-empty parent identifier \<open>p\<close> that is a key of the store.
\<close>

definition parent_links :: "artifact_store \<Rightarrow> (string \<times> string) set" where
  "parent_links st =
     {(p, k). p \<noteq> [] \<and> map_of st p \<noteq> None \<and>
              (\<exists>a. map_of st k = Some a \<and> parent_artifact_id a = Some p)}"

text \<open>
  \<open>is_lineage st cur xs\<close>: the list \<open>xs\<close>, read from the newest artifact to the oldest,
  is the parent chain that starts at \<open>cur\<close>: each artifact is the one stored under the
  current identifier, the next identifier is its parent, and the chain ends exactly
  where the identifier is missing, empty or not a key of the store.
\<close>

fun is_lineage :: "artifact_store \<Rightarrow> string option \<Rightarrow> artifact list \<Rightarrow> bool" where
  "is_lineage st None xs = (xs = [])"
| "is_lineage st (Some i) [] = (i = [] \<or> map_of st i = None)"
| "is_lineage st (Some i) (a # xs) =
     (i \<noteq> [] \<and> map_of st i = Some a \<and> is_lineage st (parent_artifact_id a) xs)"

section \<open>Hashes and fingerprints\<close>

text \<open>
  The library functions the records call are parameters of the model:
  \<open>sha256_hex s\<close> is \<open>hashlib.sha256(s.encode('utf-8')).hexdigest()\<close>,
  \<open>float_repr\<close> is the text \<open>json.dumps\<close> writes for a float, \<open>isoformat\<close> is
  \<open>datetime.isoformat\<close>, and \<open>json_loads\<close> is \<open>json.loads\<close> with \<open>None\<close> for a
  \<open>JSONDecodeError\<close>.
\<close>

datatype json =
    JNull
  | JBool bool
  | JNum real
  | JStr string
  | JArr "json list"
  | JObj "(string \<times> json) list"

record pylib =
  sha256_hex :: "string \<Rightarrow> string"
  float_repr :: "real \<Rightarrow> string"
  isoformat :: "datetime \<Rightarrow> string"
  json_loads :: "string \<Rightarrow> json option"

text \<open>The values that the fingerprint dictionaries hold.\<close>

datatype fp_value =
    FNone
  | FStr string
  | FFloat real
  | FStrList "string list"

subsection \<open>\<open>json.dumps(data, sort_keys=True)\<close>\<close>

definition hex_digit :: "nat \<Rightarrow> char" where
  "hex_digit n = ''0123456789abcdef'' ! (n mod 16)"

text \<open>
  The encoder escapes the quote, the backslash and every character outside the
  printable ASCII range from space to tilde.
\<close>

definition escape_char :: "char \<Rightarrow> string" where
  "escape_char c =
     (let n = (of_char c :: nat) in
      if c = CHR 0x22 then [CHR 0x5C, CHR 0x22]
      else if c = CHR 0x5C then [CHR 0x5C, CHR 0x5C]
      else if c = CHR 0x0A then [CHR 0x5C, CHR ''n'']
      else if c = CHR 0x0D then [CHR 0x5C, CHR ''r'']
      else if c = CHR 0x09 then [CHR 0x5C, CHR ''t'']
      else if c = CHR 0x08 then [CHR 0x5C, CHR ''b'']
      else if c = CHR 0x0C then [CHR 0x5C, CHR ''f'']
      else if n < 32 \<or> 126 < n
        then [CHR 0x5C, CHR ''u'', CHR ''0'', CHR ''0'', hex_digit (n div 16), hex_digit n]
      else [c])"

definition json_string :: "string \<Rightarrow> string" where
  "json_string s = [CHR 0x22] @ concat (map escape_char s) @ [CHR 0x22]"

fun join :: "string \<Rightarrow> string list \<Rightarrow> string" where
  "join sep [] = []"
| "join sep [x] = x"
| "join sep (x # y # ys) = x @ sep @ join sep (y # ys)"

fun dumps_value :: "pylib \<Rightarrow> fp_value \<Rightarrow> string" where
  "dumps_value lib FNone = ''null''"
| "dumps_value lib (FStr s) = json_string s"
| "dumps_value lib (FFloat x) = float_repr lib x"
| "dumps_value lib (FStrList xs) = ''['' @ join '', '' (map json_string xs) @ '']''"

definition dumps_sorted :: "pylib \<Rightarrow> (string, fp_value) dict \<Rightarrow> string" where
  "dumps_sorted lib d =
     ''{'' @ join '', '' (map (\<lambda>(k, v). json_string k @ '': '' @ dumps_value lib v)
                             (sort_key fst d)) @ ''}''"

subsection \<open>Derived fields\<close>

text \<open>\<open>f"{name}:{version}" if name else None\<close>; a missing version is written \<open>None\<close>.\<close>

fun py_str :: "string option \<Rightarrow> string" where
  "py_str None = ''None''"
| "py_str (Some s) = s"

definition name_version :: "string option \<Rightarrow> string option \<Rightarrow> fp_value" where
  "name_version name version =
     (if truthy name then FStr (py_str name @ '':'' @ py_str version) else FNone)"

fun opt_str :: "string option \<Rightarrow> fp_value" where
  "opt_str None = FNone"
| "opt_str (Some s) = FStr s"

definition sha256 :: "pylib \<Rightarrow> evidence \<Rightarrow> string" where
  "sha256 lib e = sha256_hex lib (content e)"

definition fingerprint_data :: "pylib \<Rightarrow> evidence \<Rightarrow> (string, fp_value) dict" where
  "fingerprint_data lib e =
     [(''sha256'', FStr (sha256 lib e)),
      (''timestamp'', FStr (isoformat lib (timestamp e))),
      (''tool'', name_version (tool_name e) (tool_version e)),
      (''model'', name_version (model_name e) (model_version e))]"


definition run_fingerprint_data :: "pylib \<Rightarrow> claim \<Rightarrow> (string, fp_value) dict" where
  "run_fingerprint_data lib c =
     [(''statement_hash'', FStr (sha256_hex lib (statement c))),
      (''confidence'', FFloat (confidence c)),
      (''supporting_evidence'', FStrList (sort (supporting_evidence_ids c))),
      (''counter_evidence'', FStrList (sort (counter_evidence_ids c))),
      (''timestamp'', FStr (isoformat lib (timestamp c))),
      (''tool'', name_version (tool_name c) (tool_version c)),
      (''model'', name_version (model_name c) (model_version c))]"

definition run_fingerprint :: "pylib \<Rightarrow> claim \<Rightarrow> string" where
  "run_fingerprint lib c = sha256_hex lib (dumps_sorted lib (run_fingerprint_data lib c))"

fun kind_name :: "artifact_kind \<Rightarrow> string" where
  "kind_name TEvidence = ''evidence''"
| "kind_name TClaim = ''claim''"
| "kind_name TDerived = ''derived''"
| "kind_name TReport = ''report''"

definition artifact_sha256 :: "pylib \<Rightarrow> artifact \<Rightarrow> string" where
  "artifact_sha256 lib a = sha256_hex lib (artifact_content a)"

definition artifact_fingerprint_data :: "pylib \<Rightarrow> artifact \<Rightarrow> (string, fp_value) dict" where
  "artifact_fingerprint_data lib a =
     [(''sha256'', FStr (artifact_sha256 lib a)),
      (''artifact_type'', FStr (kind_name (artifact_type a))),
      (''parent_id'', opt_str (parent_artifact_id a)),
      (''timestamp'', FStr (isoformat lib (timestamp a))),
      (''tool'', name_version (tool_name a) (tool_version a)),
      (''model'', name_version (model_name a) (model_version a))]"

definition artifact_fingerprint :: "pylib \<Rightarrow> artifact \<Rightarrow> string" where
  "artifact_fingerprint lib a =
     sha256_hex lib (dumps_sorted lib (artifact_fingerprint_data lib a))"

section \<open>Diff engine\<close>



text \<open>\<open>{c.id: c for c in claims if c.id}\<close>: a later claim replaces an earlier one of the same id.\<close>

definition claims_map :: "claim list \<Rightarrow> (string, claim) dict" where
  "claims_map cs =
     foldl (\<lambda>m c. case claim_id c of
                    None \<Rightarrow> m
                  | Some i \<Rightarrow> if i \<noteq> [] then AList.update i c m else m) [] cs"




subsection \<open>Artifacts\<close>

record key_change =
  changed_key :: string
  old_value :: json
  new_value :: json

record dict_diff =
  added_keys :: "string list"
  removed_keys :: "string list"
  modified_keys :: "key_change list"

datatype content_diff = RawContentDiffers | KeyDiff dict_diff

record artifact_diff =
  id_match :: bool
  type_match :: bool
  content_match :: bool
  sha256_match :: bool
  fingerprint_match :: bool
  parent_match :: bool
  content_diff :: "content_diff option"

text \<open>
  Python's \<open>!=\<close> on parsed JSON: \<open>True\<close> and \<open>False\<close> equal 1 and 0, and two
  dictionaries are equal when they hold equal values under the same keys. Both values
  are brought to one form and compared. (The floats \<open>NaN\<close> and \<open>Infinity\<close>, which
  \<open>json.loads\<close> also reads, have no value in \<^typ>\<open>json\<close>.)
\<close>

fun py_form :: "json \<Rightarrow> json" where
  "py_form JNull = JNull"
| "py_form (JBool b) = JNum (if b then 1 else 0)"
| "py_form (JNum x) = JNum x"
| "py_form (JStr s) = JStr s"
| "py_form (JArr xs) = JArr (map py_form xs)"
| "py_form (JObj kvs) = JObj (sort_key fst (map (map_prod id py_form) kvs))"

definition py_ne :: "json \<Rightarrow> json \<Rightarrow> bool" where
  "py_ne a b = (py_form a \<noteq> py_form b)"

text \<open>\<open>dict_a.keys()\<close> raises \<open>AttributeError\<close> on a value that is not a dictionary.\<close>

fun keys :: "json \<Rightarrow> error + string list" where
  "keys (JObj kvs) = Inr (remdups (map fst kvs))"
| "keys _ = Inl AttributeError"

fun items :: "json \<Rightarrow> (string, json) dict" where
  "items (JObj kvs) = kvs"
| "items _ = []"

definition compute_dict_diff :: "json \<Rightarrow> json \<Rightarrow> error + dict_diff" where
  "compute_dict_diff dict_a dict_b =
     (case keys dict_a of
        Inl e \<Rightarrow> Inl e
      | Inr keys_a \<Rightarrow>
          (case keys dict_b of
             Inl e \<Rightarrow> Inl e
           | Inr keys_b \<Rightarrow>
               (let added = filter (\<lambda>k. k \<notin> set keys_a) keys_b;
                    removed = filter (\<lambda>k. k \<notin> set keys_b) keys_a;
                    common_keys = filter (\<lambda>k. k \<in> set keys_b) keys_a;
                    modified =
                      concat (map (\<lambda>k. case map_of (items dict_a) k of
                                          None \<Rightarrow> []
                                        | Some va \<Rightarrow>
                                            (case map_of (items dict_b) k of
                                               None \<Rightarrow> []
                                             | Some vb \<Rightarrow>
                                                 if py_ne va vb
                                                 then [\<lparr> changed_key = k, old_value = va,
                                                         new_value = vb \<rparr>]
                                                 else []))
                                  common_keys)
                in Inr \<lparr> added_keys = added, removed_keys = removed,
                         modified_keys = modified \<rparr>)))"

text \<open>
  The \<open>try\<close> block of \<open>compute_artifact_diff\<close>: a \<open>JSONDecodeError\<close> of either
  \<open>json.loads\<close> is caught and gives the marker; the \<open>except\<close> clause names
  \<open>JSONDecodeError\<close> and \<open>TypeError\<close> only, so any other exception leaves the function.
\<close>

definition content_difference :: "pylib \<Rightarrow> artifact \<Rightarrow> artifact \<Rightarrow> error + content_diff" where
  "content_difference lib artifact_a artifact_b =
     (case json_loads lib (artifact_content artifact_a) of
        None \<Rightarrow> Inr RawContentDiffers
      | Some content_a \<Rightarrow>
          (case json_loads lib (artifact_content artifact_b) of
             None \<Rightarrow> Inr RawContentDiffers
           | Some content_b \<Rightarrow>
               (case compute_dict_diff content_a content_b of
                  Inl e \<Rightarrow> Inl e
                | Inr d \<Rightarrow> Inr (KeyDiff d))))"

definition compute_artifact_diff :: "pylib \<Rightarrow> artifact \<Rightarrow> artifact \<Rightarrow> error + artifact_diff" where
  "compute_artifact_diff lib artifact_a artifact_b =
     (let diff = \<lparr> id_match = (artifact_id artifact_a = artifact_id artifact_b),
                   type_match = (artifact_type artifact_a = artifact_type artifact_b),
                   content_match = (artifact_content artifact_a = artifact_content artifact_b),
                   sha256_match = (artifact_sha256 lib artifact_a = artifact_sha256 lib artifact_b),
                   fingerprint_match =
                     (artifact_fingerprint lib artifact_a = artifact_fingerprint lib artifact_b),
                   parent_match =
                     (parent_artifact_id artifact_a = parent_artifact_id artifact_b),
                   content_diff = None \<rparr>
      in if \<not> content_match diff
         then (case content_difference lib artifact_a artifact_b of
                 Inl e \<Rightarrow> Inl e
               | Inr d \<Rightarrow> Inr (diff\<lparr>content_diff := Some d\<rparr>))
         else Inr diff)"

section \<open>Alert generator\<close>

datatype alert_details =
    HighConfidence "string option" real string
  | WellSupported "string option" nat nat nat
  | ConfidenceChange "string option" real real real

record alert =
  alert_type :: string
  severity :: string
  message :: string
  details :: alert_details
  alert_timestamp :: datetime

record alert_generator =
  confidence_drop_threshold :: real
  confidence_high_threshold :: real

text \<open>
  \<open>Alert(...)\<close> without a timestamp reads the clock; \<open>now\<close> is the time it reads.
\<close>

definition new_alert :: "datetime \<Rightarrow> string \<Rightarrow> string \<Rightarrow> string \<Rightarrow> alert_details \<Rightarrow> alert" where
  "new_alert now ty sev msg det =
     \<lparr> alert_type = ty, severity = sev, message = msg, details = det, alert_timestamp = now \<rparr>"

definition high_confidence_alerts :: "alert_generator \<Rightarrow> datetime \<Rightarrow> claim \<Rightarrow> alert list" where
  "high_confidence_alerts g now c =
     (if confidence_high_threshold g \<le> confidence c
      then [new_alert now ''high_confidence_claim'' ''high''
              (''High-confidence claim detected: '' @ take 100 (statement c))
              (HighConfidence (claim_id c) (confidence c) (statement c))]
      else [])"

definition well_supported_alerts :: "datetime \<Rightarrow> claim \<Rightarrow> alert list" where
  "well_supported_alerts now c =
     (let total_evidence = length (supporting_evidence_ids c) + length (counter_evidence_ids c)
      in if 5 \<le> total_evidence
         then [new_alert now ''well_supported_claim'' ''medium''
                 (''Claim with substantial evidence: '' @ take 100 (statement c))
                 (WellSupported (claim_id c) total_evidence
                    (length (supporting_evidence_ids c)) (length (counter_evidence_ids c)))]
         else [])"

definition drop_alert :: "datetime \<Rightarrow> claim \<Rightarrow> claim \<Rightarrow> alert" where
  "drop_alert now c prev_claim =
     new_alert now ''confidence_drop'' ''high''
       (''Significant confidence drop in claim: '' @ take 100 (statement c))
       (ConfidenceChange (claim_id c) (confidence prev_claim) (confidence c)
          (confidence c - confidence prev_claim))"

definition increase_alert :: "datetime \<Rightarrow> claim \<Rightarrow> claim \<Rightarrow> alert" where
  "increase_alert now c prev_claim =
     new_alert now ''confidence_increase'' ''medium''
       (''Significant confidence increase in claim: '' @ take 100 (statement c))
       (ConfidenceChange (claim_id c) (confidence prev_claim) (confidence c)
          (confidence c - confidence prev_claim))"

text \<open>\<open>claim.id in prev_claims_map\<close> is false for a claim whose id is \<open>None\<close>.\<close>

definition change_alerts ::
  "alert_generator \<Rightarrow> datetime \<Rightarrow> (string, claim) dict \<Rightarrow> claim \<Rightarrow> alert list" where
  "change_alerts g now prev_claims_map c =
     (case claim_id c of
        None \<Rightarrow> []
      | Some i \<Rightarrow>
          (case map_of prev_claims_map i of
             None \<Rightarrow> []
           | Some prev_claim \<Rightarrow>
               (let confidence_change = confidence c - confidence prev_claim
                in if confidence_change \<le> - confidence_drop_threshold g
                   then [drop_alert now c prev_claim]
                   else if confidence_drop_threshold g \<le> confidence_change
                   then [increase_alert now c prev_claim]
                   else [])))"

definition generate_alerts ::
  "alert_generator \<Rightarrow> datetime \<Rightarrow> claim list \<Rightarrow> claim list option \<Rightarrow> alert list" where
  "generate_alerts g now claims previous_claims =
     concat (map (high_confidence_alerts g now) claims)
     @ concat (map (well_supported_alerts now) claims)
     @ (if or_empty previous_claims \<noteq> []
        then (let prev_claims_map = claims_map (or_empty previous_claims)
              in concat (map (change_alerts g now prev_claims_map) claims))
        else [])"

subsection \<open>Summary\<close>

record alert_dict =
  d_alert_type :: string
  d_severity :: string
  d_message :: string
  d_details :: alert_details
  d_timestamp :: string

record summary =
  total_alerts :: nat
  severity_counts :: "(string, nat) dict"
  type_counts :: "(string, nat) dict"
  alerts :: "alert_dict list"

definition to_dict :: "pylib \<Rightarrow> alert \<Rightarrow> alert_dict" where
  "to_dict lib a =
     \<lparr> d_alert_type = alert_type a, d_severity = severity a, d_message = message a,
       d_details = details a, d_timestamp = isoformat lib (alert_timestamp a) \<rparr>"

text \<open>
  One round of the counting loop. \<open>severity_counts[alert.severity] += 1\<close> raises
  \<open>KeyError\<close> for a severity that is not one of the four keys.
\<close>

definition count_alert ::
  "alert \<Rightarrow> (string, nat) dict \<times> (string, nat) dict \<Rightarrow>
   error + (string, nat) dict \<times> (string, nat) dict" where
  "count_alert a counts =
     (case map_of (fst counts) (severity a) of
        None \<Rightarrow> Inl (KeyError (severity a))
      | Some n \<Rightarrow>
          Inr (AList.update (severity a) (n + 1) (fst counts),
               AList.update (alert_type a)
                 ((case map_of (snd counts) (alert_type a) of None \<Rightarrow> 0 | Some m \<Rightarrow> m) + 1)
                 (snd counts)))"

fun count_alerts ::
  "alert list \<Rightarrow> (string, nat) dict \<times> (string, nat) dict \<Rightarrow>
   error + (string, nat) dict \<times> (string, nat) dict" where
  "count_alerts [] counts = Inr counts"
| "count_alerts (a # as) counts =
     (case count_alert a counts of
        Inl e \<Rightarrow> Inl e
      | Inr counts' \<Rightarrow> count_alerts as counts')"

definition generate_summary :: "pylib \<Rightarrow> alert list \<Rightarrow> error + summary" where
  "generate_summary lib as =
     (case count_alerts as
             ([(''low'', 0), (''medium'', 0), (''high'', 0), (''critical'', 0)], []) of
        Inl e \<Rightarrow> Inl e
      | Inr counts \<Rightarrow>
          Inr \<lparr> total_alerts = length as,
                severity_counts = fst counts,
                type_counts = snd counts,
                alerts = map (to_dict lib) as \<rparr>)"

section \<open>Notions of the specification\<close>

text \<open>
  The artifact stores that \<open>store_artifact\<close> builds from the empty store when every
  identifier it generates is new: not a key of the store, not a parent identifier of a
  stored artifact, and not the parent identifier passed in the same call.
\<close>

inductive built :: "artifact_store \<Rightarrow> bool" where
  built_empty: "built []"
| built_store:
    "built st \<Longrightarrow> new_id \<notin> fst ` set st \<Longrightarrow>
     \<forall>a \<in> snd ` set st. parent_artifact_id a \<noteq> Some new_id \<Longrightarrow>
     parent \<noteq> Some new_id \<Longrightarrow>
     built (snd (store_artifact st new_id now kind cnt parent md tn tv mn mv))"

text \<open>The parsed values that are dictionaries (JSON objects).\<close>

fun is_object :: "json \<Rightarrow> bool" where
  "is_object (JObj kvs) = True"
| "is_object _ = False"


text \<open>
  The fingerprint of an evidence record as the specification words it: the same
  canonical JSON object, with the content hash under the key \<open>content_hash\<close>.
\<close>

definition fingerprint_data_as_specified :: "pylib \<Rightarrow> evidence \<Rightarrow> (string, fp_value) dict" where
  "fingerprint_data_as_specified lib e =
     [(''content_hash'', FStr (sha256 lib e)),
      (''timestamp'', FStr (isoformat lib (timestamp e))),
      (''tool'', name_version (tool_name e) (tool_version e)),
      (''model'', name_version (model_name e) (model_version e))]"


section \<open>Example records\<close>

definition example_evidence :: evidence where
  "example_evidence =
     \<lparr> metadata = [], tool_name = Some ''watchtower'', tool_version = Some ''0.1.0'',
       model_name = None, model_version = None, timestamp = 1,
       evidence_id = Some ''e1'', content = ''Document showing transaction of $10,000'',
       source = ''manual'' \<rparr>"

definition example_claim :: claim where
  "example_claim =
     \<lparr> metadata = [], tool_name = Some ''watchtower'', tool_version = Some ''0.1.0'',
       model_name = None, model_version = None, timestamp = 2,
       claim_id = Some ''c1'', statement = ''Company X received suspicious payment'',
       confidence = 0.85, supporting_evidence_ids = [''e1'', ''e2''],
       counter_evidence_ids = [] \<rparr>"

text \<open>
  A library for the examples: the hash is the identity (a stand-in that tells any two
  texts apart), the floats and the times of the examples are written as Python writes
  them, and no content parses as JSON.
\<close>

definition example_lib :: pylib where
  "example_lib =
     \<lparr> sha256_hex = (\<lambda>s. s),
       float_repr = (\<lambda>x. if x = 0.5 then ''0.5'' else if x = 0.6 then ''0.6''
                         else if x = 0.8 then ''0.8'' else if x = 0.9 then ''0.9''
                         else if x = 0.95 then ''0.95'' else ''0.85''),
       isoformat = (\<lambda>t. ''2024-01-01T00:00:0'' @ [hex_digit (nat t)]),
       json_loads = (\<lambda>s. None) \<rparr>"


definition example_generator :: alert_generator where
  "example_generator = \<lparr> confidence_drop_threshold = 0.2, confidence_high_threshold = 0.9 \<rparr>"

definition example_artifact :: artifact where
  "example_artifact =
     \<lparr> metadata = [], tool_name = Some ''watchtower'', tool_version = Some ''0.1.0'',
       model_name = None, model_version = None, timestamp = 3,
       artifact_id = Some ''a1'', artifact_type = TDerived, artifact_content = ''[1]'',
       parent_artifact_id = None \<rparr>"



text \<open>A \<open>json.loads\<close> that reads the two arrays of the examples.\<close>

definition array_lib :: pylib where
  "array_lib =
     example_lib\<lparr>json_loads :=
       (\<lambda>s. if s = ''[1]'' then Some (JArr [JNum 1])
            else if s = ''[2]'' then Some (JArr [JNum 2])
            else None)\<rparr>"

section \<open>Properties\<close>

subsection \<open>Lists and dictionaries\<close>

lemma find_None_iff_all: "(find P xs = None) = (\<forall>x \<in> set xs. \<not> P x)"
  by (induction xs) auto

lemma find_Some_member: "find P xs = Some x \<Longrightarrow> x \<in> set xs \<and> P x"
  by (induction xs) (auto split: if_splits)

subsection \<open>Claim construction and the claim store\<close>

text \<open>
  C2. A claim with no supporting and no counter evidence is rejected with a validation
  error, a claim whose confidence lies outside the closed interval from 0 to 1 is
  rejected with a validation error, and a claim with at least one reference and a
  confidence inside the interval is constructed.
\<close>

theorem new_claim_validation:
  "(supporting_evidence_ids c = [] \<and> counter_evidence_ids c = []
      \<longrightarrow> new_claim c = Inl ValidationError)
   \<and> (confidence c < 0 \<or> 1 < confidence c \<longrightarrow> new_claim c = Inl ValidationError)
   \<and> ((supporting_evidence_ids c \<noteq> [] \<or> counter_evidence_ids c \<noteq> [])
        \<and> 0 \<le> confidence c \<and> confidence c \<le> 1
      \<longrightarrow> new_claim c = Inr c)"
  by (auto simp: new_claim_def model_post_init_def)

theorem new_claim_validation_witness:
  "new_claim (example_claim\<lparr>supporting_evidence_ids := []\<rparr>) = Inl ValidationError
   \<and> new_claim (example_claim\<lparr>confidence := 1.5\<rparr>) = Inl ValidationError
   \<and> new_claim (example_claim\<lparr>confidence := - 0.1\<rparr>) = Inl ValidationError
   \<and> new_claim (example_claim\<lparr>supporting_evidence_ids := [''e1'']\<rparr>)
       = Inr (example_claim\<lparr>supporting_evidence_ids := [''e1'']\<rparr>)
   \<and> new_claim (example_claim\<lparr>confidence := 1\<rparr>) = Inr (example_claim\<lparr>confidence := 1\<rparr>)"
  using new_claim_validation [of "example_claim\<lparr>supporting_evidence_ids := []\<rparr>"]
    new_claim_validation [of "example_claim\<lparr>confidence := 1.5\<rparr>"]
    new_claim_validation [of "example_claim\<lparr>confidence := - 0.1\<rparr>"]
    new_claim_validation [of "example_claim\<lparr>supporting_evidence_ids := [''e1'']\<rparr>"]
    new_claim_validation [of "example_claim\<lparr>confidence := 1\<rparr>"]
  by (simp add: example_claim_def)

text \<open>
  C1. Storing a claim fails with a referential integrity error exactly when one of the
  supporting or counter evidence ids is not in the bound evidence store. The check
  comes before the claim is constructed, so the error is the referential one whatever
  the other arguments are, and then the claim store, and with it the count of claims,
  is left as it was.
\<close>

theorem store_claim_referential_integrity:
  "(let r = store_claim es cs new_id now stmt conf supp ctr md tn tv mn mv in
     ((\<exists>i. fst r = Inl (ReferentialIntegrityError i))
        \<longleftrightarrow> (\<exists>i \<in> set supp \<union> set (or_empty ctr). get_evidence es i = None))
     \<and> ((\<exists>i \<in> set supp \<union> set (or_empty ctr). get_evidence es i = None)
          \<longrightarrow> snd r = cs \<and> count_claims (snd r) = count_claims cs))"
proof (cases "find (\<lambda>eid. get_evidence es eid = None) (supp @ or_empty ctr)")
  case None
  then have present: "\<not> (\<exists>i \<in> set supp \<union> set (or_empty ctr). get_evidence es i = None)"
    by (simp add: find_None_iff_all)
  have "\<forall>i. fst (store_claim es cs new_id now stmt conf supp ctr md tn tv mn mv)
               \<noteq> Inl (ReferentialIntegrityError i)"
    using None
    by (auto simp: store_claim_def new_claim_def model_post_init_def Let_def split: sum.splits)
  with present show ?thesis unfolding Let_def by blast
next
  case (Some x)
  then have "x \<in> set supp \<union> set (or_empty ctr)" "get_evidence es x = None"
    using find_Some_member[OF Some] by auto
  moreover have "store_claim es cs new_id now stmt conf supp ctr md tn tv mn mv
                   = (Inl (ReferentialIntegrityError x), cs)"
    using Some by (simp add: store_claim_def)
  ultimately show ?thesis unfolding Let_def by auto
qed

theorem store_claim_referential_integrity_witness:
  "fst (store_claim [(''e1'', example_evidence)] [] ''c1'' 5 ''Unsupported'' 1.5
          [''e1'', ''missing-id''] None None None None None None)
     = Inl (ReferentialIntegrityError ''missing-id'')
   \<and> snd (store_claim [(''e1'', example_evidence)] [] ''c1'' 5 ''Unsupported'' 1.5
          [''e1'', ''missing-id''] None None None None None None) = []
   \<and> (\<exists>c. fst (store_claim [(''e1'', example_evidence)] [] ''c1'' 5 ''Supported'' 0.85
          [''e1''] None None None None None None) = Inr c)"
  using store_claim_referential_integrity
    [where es = "[(''e1'', example_evidence)]" and cs = "[]" and new_id = "''c1''"
       and now = 5 and stmt = "''Unsupported''" and conf = "1.5"
       and supp = "[''e1'', ''missing-id'']" and ctr = None and md = None
       and tn = None and tv = None and mn = None and mv = None]
  by (simp add: store_claim_def get_evidence_def example_evidence_def Let_def
        new_claim_def model_post_init_def)

subsection \<open>Listing\<close>





subsection \<open>Fingerprints\<close>

text \<open>
  C8. The run fingerprint of a claim does not change when its supporting evidence ids
  and its counter evidence ids are reordered, and the evidence references of the
  reordered claim are the supporting ids followed by the counter ids, in the order given.
\<close>

theorem run_fingerprint_order_independent:
  "mset s = mset (supporting_evidence_ids c) \<Longrightarrow> mset k = mset (counter_evidence_ids c) \<Longrightarrow>
   run_fingerprint lib (c\<lparr>supporting_evidence_ids := s, counter_evidence_ids := k\<rparr>)
     = run_fingerprint lib c
   \<and> evidence_refs (c\<lparr>supporting_evidence_ids := s, counter_evidence_ids := k\<rparr>) = s @ k"
proof -
  assume s: "mset s = mset (supporting_evidence_ids c)"
    and k: "mset k = mset (counter_evidence_ids c)"
  have "sort s = sort (supporting_evidence_ids c)"
    using s by (metis properties_for_sort mset_sort sorted_sort)
  moreover have "sort k = sort (counter_evidence_ids c)"
    using k by (metis properties_for_sort mset_sort sorted_sort)
  ultimately show ?thesis
    by (simp add: run_fingerprint_def run_fingerprint_data_def evidence_refs_def)
qed

theorem run_fingerprint_order_independent_witness:
  "run_fingerprint example_lib
     (example_claim\<lparr>supporting_evidence_ids := [''e2'', ''e1''], counter_evidence_ids := []\<rparr>)
     = run_fingerprint example_lib example_claim
   \<and> evidence_refs
     (example_claim\<lparr>supporting_evidence_ids := [''e2'', ''e1''], counter_evidence_ids := []\<rparr>)
     = [''e2'', ''e1'']"
proof -
  have s: "mset [''e2'', ''e1''] = mset (supporting_evidence_ids example_claim)"
    by (simp add: example_claim_def)
  have k: "mset [] = mset (counter_evidence_ids example_claim)"
    by (simp add: example_claim_def)
  show ?thesis
    using run_fingerprint_order_independent [OF s k, of example_lib] by simp
qed

subsection \<open>Confidence change alerts\<close>











subsection \<open>Alert summary\<close>

lemma generate_alerts_severity:
  "a \<in> set (generate_alerts g now claims previous) \<Longrightarrow>
   severity a = ''high'' \<or> severity a = ''medium''"
  by (auto simp: generate_alerts_def high_confidence_alerts_def well_supported_alerts_def
        change_alerts_def drop_alert_def increase_alert_def new_alert_def Let_def
        split: if_splits option.splits)

lemma count_alert_known:
  "map_of sc (severity a) = Some n \<Longrightarrow>
   \<exists>sc' tc'. count_alert a (sc, tc) = Inr (sc', tc')
     \<and> map fst sc' = map fst sc
     \<and> (\<forall>k. map_of sc' k = (if k = severity a then Some (n + 1) else map_of sc k))"
  by (auto simp: count_alert_def update_keys update_conv' dest: map_of_SomeD
        intro: rev_image_eqI)

lemma count_alerts_known:
  "\<forall>a \<in> set as. severity a \<in> set (map fst sc) \<Longrightarrow>
   \<exists>sc' tc'. count_alerts as (sc, tc) = Inr (sc', tc')
     \<and> map fst sc' = map fst sc
     \<and> (\<forall>k. map_of sc' k
            = map_option (\<lambda>n. n + length (filter (\<lambda>a. severity a = k) as)) (map_of sc k))"
proof (induction as arbitrary: sc tc)
  case Nil
  show ?case by (simp add: option.map_ident)
next
  case (Cons a as)
  from Cons.prems have "severity a \<in> set (map fst sc)" by simp
  then obtain n where n: "map_of sc (severity a) = Some n"
    by (metis map_of_eq_None_iff not_None_eq set_map)
  from count_alert_known[OF n, of tc] obtain sc1 tc1 where
    step: "count_alert a (sc, tc) = Inr (sc1, tc1)" and keys1: "map fst sc1 = map fst sc"
    and vals1: "\<And>k. map_of sc1 k = (if k = severity a then Some (n + 1) else map_of sc k)"
    by blast
  have "\<forall>a \<in> set as. severity a \<in> set (map fst sc1)" using Cons.prems keys1 by simp
  from Cons.IH[OF this, of tc1] obtain sc' tc' where
    rest: "count_alerts as (sc1, tc1) = Inr (sc', tc')" and keys': "map fst sc' = map fst sc1"
    and vals': "\<And>k. map_of sc' k
            = map_option (\<lambda>n. n + length (filter (\<lambda>a. severity a = k) as)) (map_of sc1 k)"
    by blast
  have "count_alerts (a # as) (sc, tc) = Inr (sc', tc')" using step rest by simp
  moreover have "map fst sc' = map fst sc" using keys' keys1 by simp
  moreover have "\<forall>k. map_of sc' k
            = map_option (\<lambda>n. n + length (filter (\<lambda>a. severity a = k) (a # as))) (map_of sc k)"
    using vals' vals1 n by (auto simp: map_option_case split: option.splits)
  ultimately show ?case by blast
qed

text \<open>
  C10. Every alert that \<open>generate_alerts\<close> produces has severity \<open>high\<close> or
  \<open>medium\<close>. The summary of such a list of alerts is therefore computed without a
  \<open>KeyError\<close>: it counts as many alerts as the list has, its severity counts keep
  exactly the four keys they start with, \<open>low\<close> and \<open>critical\<close> stay at 0, and
  \<open>medium\<close> and \<open>high\<close> count the alerts of their severity.
\<close>

theorem generate_alerts_summary:
  "(let out = generate_alerts g now claims previous in
     (\<forall>a \<in> set out. severity a = ''high'' \<or> severity a = ''medium'')
     \<and> (\<exists>s. generate_summary lib out = Inr s
           \<and> total_alerts s = length out
           \<and> map fst (severity_counts s) = [''low'', ''medium'', ''high'', ''critical'']
           \<and> map_of (severity_counts s) ''low'' = Some 0
           \<and> map_of (severity_counts s) ''critical'' = Some 0
           \<and> map_of (severity_counts s) ''medium''
               = Some (length (filter (\<lambda>a. severity a = ''medium'') out))
           \<and> map_of (severity_counts s) ''high''
               = Some (length (filter (\<lambda>a. severity a = ''high'') out))))"
proof -
  let ?out = "generate_alerts g now claims previous"
  let ?sc = "[(''low'', 0::nat), (''medium'', 0), (''high'', 0), (''critical'', 0)]"
  have sev: "\<forall>a \<in> set ?out. severity a = ''high'' \<or> severity a = ''medium''"
    using generate_alerts_severity by blast
  then have "\<forall>a \<in> set ?out. severity a \<in> set (map fst ?sc)" by auto
  from count_alerts_known[OF this, of "[]"] obtain sc' tc' where
    run: "count_alerts ?out (?sc, []) = Inr (sc', tc')" and keys: "map fst sc' = map fst ?sc"
    and vals: "\<And>k. map_of sc' k
            = map_option (\<lambda>n. n + length (filter (\<lambda>a. severity a = k) ?out)) (map_of ?sc k)"
    by blast
  have low: "filter (\<lambda>a. severity a = ''low'') ?out = []"
    using sev by (auto simp: filter_empty_conv)
  have crit: "filter (\<lambda>a. severity a = ''critical'') ?out = []"
    using sev by (auto simp: filter_empty_conv)
  have "generate_summary lib ?out
          = Inr \<lparr> total_alerts = length ?out, severity_counts = sc', type_counts = tc',
                  alerts = map (to_dict lib) ?out \<rparr>"
    using run by (simp add: generate_summary_def)
  then show ?thesis
    unfolding Let_def using sev keys vals[of "''low''"] vals[of "''critical''"]
      vals[of "''medium''"] vals[of "''high''"] low crit
    by simp
qed


theorem generate_alerts_summary_witness:
  "\<exists>s. generate_summary example_lib
          (generate_alerts example_generator 9 [example_claim\<lparr>confidence := 0.95\<rparr>] None) = Inr s
       \<and> total_alerts s = 1
       \<and> map_of (severity_counts s) ''high'' = Some 1
       \<and> map_of (severity_counts s) ''medium'' = Some 0"
  using generate_alerts_summary
    [of example_generator 9 "[example_claim\<lparr>confidence := 0.95\<rparr>]" None example_lib]
  by (auto simp: Let_def generate_alerts_def high_confidence_alerts_def
        well_supported_alerts_def example_generator_def example_claim_def new_alert_def)

subsection \<open>Artifact lineage\<close>



lemma lineage_loop_wf:
  assumes "wf (parent_links st)"
  shows "\<exists>xs. lineage_loop st (Some i) acc = Some (rev xs @ acc) \<and> is_lineage st (Some i) xs"
  using assms
proof (induction i arbitrary: acc rule: wf_induct_rule)
  case (less i)
  show ?case
  proof (cases "i = [] \<or> map_of st i = None")
    case True
    then have "lineage_loop st (Some i) acc = Some acc"
      by (subst lineage_loop.simps) (auto simp: get_artifact_def)
    with True show ?thesis by (intro exI[of _ "[]"]) auto
  next
    case False
    then obtain a where i: "i \<noteq> []" and a: "map_of st i = Some a" by auto
    have unfold: "lineage_loop st (Some i) acc = lineage_loop st (parent_artifact_id a) (a # acc)"
      using i a by (subst lineage_loop.simps) (simp add: get_artifact_def)
    show ?thesis
    proof (cases "parent_artifact_id a")
      case None
      then have "lineage_loop st (Some i) acc = Some (a # acc)"
        using unfold by (subst (asm) (2) lineage_loop.simps) simp
      with i a None show ?thesis by (intro exI[of _ "[a]"]) simp
    next
      case (Some p)
      show ?thesis
      proof (cases "p = [] \<or> map_of st p = None")
        case True
        then have "lineage_loop st (Some p) (a # acc) = Some (a # acc)"
          by (subst lineage_loop.simps) (auto simp: get_artifact_def)
        with unfold Some i a True show ?thesis by (intro exI[of _ "[a]"]) auto
      next
        case False
        then have "(p, i) \<in> parent_links st"
          using a Some by (auto simp: parent_links_def)
        from less.IH[OF this, of "a # acc"] obtain ys where
          ys: "lineage_loop st (Some p) (a # acc) = Some (rev ys @ a # acc)"
            "is_lineage st (Some p) ys"
          by blast
        with unfold Some i a show ?thesis by (intro exI[of _ "a # ys"]) simp
      qed
    qed
  qed
qed





text \<open>
  The stores built by \<open>store_artifact\<close> with new identifiers have no cycle, whatever
  parent identifiers the callers pass, dangling ones included.
\<close>

lemma parent_links_empty: "parent_links [] = {}"
  by (simp add: parent_links_def)

lemma parent_links_store:
  assumes fresh: "new_id \<notin> fst ` set st"
    and unused: "\<forall>a \<in> snd ` set st. parent_artifact_id a \<noteq> Some new_id"
    and other: "parent \<noteq> Some new_id"
  shows "parent_links (snd (store_artifact st new_id now kind cnt parent md tn tv mn mv))
           \<subseteq> parent_links st \<union> {(p, k). k = new_id \<and> p \<noteq> new_id}"
proof
  fix x
  assume x: "x \<in> parent_links (snd (store_artifact st new_id now kind cnt parent md tn tv mn mv))"
  obtain p k where pk: "x = (p, k)" by (cases x)
  let ?a = "\<lparr> metadata = or_empty md, tool_name = tn, tool_version = tv,
                model_name = mn, model_version = mv, timestamp = now,
                artifact_id = Some new_id, artifact_type = kind, artifact_content = cnt,
                parent_artifact_id = parent \<rparr>"
  from x pk have p: "p \<noteq> []" and dom: "((map_of st)(new_id \<mapsto> ?a)) p \<noteq> None"
    and link: "\<exists>b. ((map_of st)(new_id \<mapsto> ?a)) k = Some b \<and> parent_artifact_id b = Some p"
    by (auto simp: parent_links_def store_artifact_def Let_def update_conv')
  show "x \<in> parent_links st \<union> {(p, k). k = new_id \<and> p \<noteq> new_id}"
  proof (cases "k = new_id")
    case True
    with link other have "p \<noteq> new_id" by auto
    with True pk show ?thesis by simp
  next
    case False
    with link obtain b where b: "map_of st k = Some b" "parent_artifact_id b = Some p" by auto
    then have "b \<in> snd ` set st" by (metis map_of_SomeD image_eqI snd_conv)
    with unused b have "p \<noteq> new_id" by auto
    with dom have "map_of st p \<noteq> None" by simp
    with p b pk show ?thesis by (auto simp: parent_links_def)
  qed
qed

lemma parent_links_keys: "(p, k) \<in> parent_links st \<Longrightarrow> p \<in> fst ` set st"
  by (auto simp: parent_links_def dest: map_of_SomeD intro: rev_image_eqI)

lemma wf_fresh_target:
  assumes "wf r" and "\<And>z. (n, z) \<notin> r"
  shows "wf (r \<union> {(p, k). k = n \<and> p \<noteq> n})"
proof (rule wfI_min)
  fix x :: 'a and Q assume xQ: "x \<in> Q"
  show "\<exists>z \<in> Q. \<forall>y. (y, z) \<in> r \<union> {(p, k). k = n \<and> p \<noteq> n} \<longrightarrow> y \<notin> Q"
  proof (cases "\<exists>q \<in> Q. q \<noteq> n")
    case True
    then have "Q - {n} \<noteq> {}" by auto
    with assms(1) obtain z where z: "z \<in> Q - {n}" "\<And>y. (y, z) \<in> r \<Longrightarrow> y \<notin> Q - {n}"
      by (metis wfE_min all_not_in_conv)
    have "\<forall>y. (y, z) \<in> r \<union> {(p, k). k = n \<and> p \<noteq> n} \<longrightarrow> y \<notin> Q"
      using z assms(2) by auto
    with z show ?thesis by blast
  next
    case False
    with xQ have "n \<in> Q" and "\<forall>y \<in> Q. y = n" by auto
    have "y \<notin> Q" if y: "(y, n) \<in> r \<union> {(p, k). k = n \<and> p \<noteq> n}" for y
    proof
      assume "y \<in> Q"
      with \<open>\<forall>y \<in> Q. y = n\<close> have "y = n" by blast
      with y assms(2)[of n] show False by simp
    qed
    with \<open>n \<in> Q\<close> show ?thesis by blast
  qed
qed

lemma built_acyclic: "built st \<Longrightarrow> wf (parent_links st)"
proof (induction rule: built.induct)
  case built_empty
  show ?case by (simp add: parent_links_empty)
next
  case (built_store st new_id parent now kind cnt md tn tv mn mv)
  have "\<And>z. (new_id, z) \<notin> parent_links st"
    using built_store.hyps(2) parent_links_keys by blast
  from wf_fresh_target[OF built_store.IH this]
  show ?case
    by (rule wf_subset) (rule parent_links_store[OF built_store.hyps(2,3,4)])
qed


lemma lineage_built:
  "built st \<Longrightarrow>
   \<exists>chain. get_artifact_lineage st aid = Some chain \<and> is_lineage st (Some aid) (rev chain)"
proof -
  assume "built st"
  from lineage_loop_wf[OF built_acyclic[OF this], of aid "[]"] obtain xs where
    "lineage_loop st (Some aid) [] = Some (rev xs @ [])" "is_lineage st (Some aid) xs"
    by blast
  then show ?thesis
    by (intro exI[of _ "rev xs"]) (simp add: get_artifact_lineage_def)
qed

subsection \<open>Artifact diff\<close>

lemma keys_not_object: "\<not> is_object j \<Longrightarrow> keys j = Inl AttributeError"
  by (cases j) auto

lemma compute_dict_diff_not_object:
  "\<not> is_object ja \<or> \<not> is_object jb \<Longrightarrow> compute_dict_diff ja jb = Inl AttributeError"
  by (cases ja; cases jb) (auto simp: compute_dict_diff_def)

text \<open>
  C7. The claim says that \<open>compute_artifact_diff\<close> falls back to the marker, rather
  than raising, whenever a side is not structured key/value data. The code does so only
  when \<open>json.loads\<close> fails. When the two contents differ, both parse as JSON, and one
  of them is not a JSON object (an array, a string, a number, \<open>null\<close>),
  \<open>_compute_dict_diff\<close> calls \<open>.keys()\<close> on it and the \<open>AttributeError\<close> leaves
  \<open>compute_artifact_diff\<close>: the \<open>except\<close> clause catches \<open>JSONDecodeError\<close> and
  \<open>TypeError\<close> only.
\<close>

theorem compute_artifact_diff_raises:
  "artifact_content a \<noteq> artifact_content b \<Longrightarrow>
   json_loads lib (artifact_content a) = Some ja \<Longrightarrow>
   json_loads lib (artifact_content b) = Some jb \<Longrightarrow>
   \<not> is_object ja \<or> \<not> is_object jb \<Longrightarrow>
   compute_artifact_diff lib a b = Inl AttributeError"
  by (simp add: compute_artifact_diff_def content_difference_def Let_def
        compute_dict_diff_not_object)

theorem compute_artifact_diff_raises_witness:
  "compute_artifact_diff array_lib example_artifact
     (example_artifact\<lparr>artifact_content := ''[2]''\<rparr>) = Inl AttributeError"
proof -
  have 1: "artifact_content example_artifact
             \<noteq> artifact_content (example_artifact\<lparr>artifact_content := ''[2]''\<rparr>)"
    by (simp add: example_artifact_def)
  have 2: "json_loads array_lib (artifact_content example_artifact) = Some (JArr [JNum 1])"
    by (simp add: array_lib_def example_artifact_def)
  have 3: "json_loads array_lib (artifact_content (example_artifact\<lparr>artifact_content := ''[2]''\<rparr>))
             = Some (JArr [JNum 2])"
    by (simp add: array_lib_def)
  have 4: "\<not> is_object (JArr [JNum 1]) \<or> \<not> is_object (JArr [JNum 2])" by simp
  show ?thesis by (rule compute_artifact_diff_raises[OF 1 2 3 4])
qed

text \<open>
  The cases in which the function does what the claim says: no content diff for equal
  contents, the marker when a side does not parse, and the added and removed keys (with
  the changed ones among the common keys) when both sides are objects.
\<close>

lemma compute_artifact_diff_handled:
  "(artifact_content a = artifact_content b \<longrightarrow>
      (\<exists>d. compute_artifact_diff lib a b = Inr d \<and> content_match d \<and> content_diff d = None))
   \<and> (artifact_content a \<noteq> artifact_content b
        \<and> (json_loads lib (artifact_content a) = None \<or> json_loads lib (artifact_content b) = None)
      \<longrightarrow> (\<exists>d. compute_artifact_diff lib a b = Inr d \<and> \<not> content_match d
                \<and> content_diff d = Some RawContentDiffers))
   \<and> (artifact_content a \<noteq> artifact_content b
        \<and> json_loads lib (artifact_content a) = Some (JObj kva)
        \<and> json_loads lib (artifact_content b) = Some (JObj kvb)
      \<longrightarrow> (\<exists>d kd. compute_artifact_diff lib a b = Inr d \<and> \<not> content_match d
                \<and> content_diff d = Some (KeyDiff kd)
                \<and> set (added_keys kd) = fst ` set kvb - fst ` set kva
                \<and> set (removed_keys kd) = fst ` set kva - fst ` set kvb
                \<and> changed_key ` set (modified_keys kd) \<subseteq> fst ` set kva \<inter> fst ` set kvb))"
  apply (intro conjI impI)
    apply (simp add: compute_artifact_diff_def Let_def)
   apply (auto simp: compute_artifact_diff_def content_difference_def Let_def split: option.splits)[1]
  apply (auto simp: compute_artifact_diff_def content_difference_def Let_def compute_dict_diff_def
      image_iff split: option.splits if_splits)
   apply force
  apply force
  done


subsection \<open>Run diff\<close>











subsection \<open>Evidence fingerprint\<close>




lemma fingerprint_text_differs:
  "dumps_sorted lib (fingerprint_data lib e) \<noteq> dumps_sorted lib (fingerprint_data_as_specified lib e)"
  by (simp add: dumps_sorted_def fingerprint_data_def fingerprint_data_as_specified_def
        json_string_def escape_char_def)


end
